theory Spec2Isabelle
  imports Complex_Main
begin

section \<open>Quantities: a magnitude tagged with a time unit\<close>

text \<open>
  The module \<^verbatim>\<open>rep.py\<close> computes with \<^verbatim>\<open>quantities.Quantity\<close> values. A quantity is
  a magnitude together with a time unit; \<^verbatim>\<open>rescale\<close> changes the unit and keeps the
  physical value. Magnitudes are exact rationals here (the source uses floats), so every
  statement below is about the arithmetic the code writes down, not about rounding.
\<close>

datatype time_unit = Sec | MilliSec | MicroSec

fun factor :: "time_unit \<Rightarrow> rat" where
  "factor Sec = 1"
| "factor MilliSec = 1 / 1000"
| "factor MicroSec = 1 / 1000000"

record quantity =
  magnitude :: rat
  units :: time_unit

definition secs :: "quantity \<Rightarrow> rat" where
  "secs q = magnitude q * factor (units q)"

definition rescale :: "quantity \<Rightarrow> time_unit \<Rightarrow> quantity" where
  "rescale q u = \<lparr>magnitude = magnitude q * factor (units q) / factor u, units = u\<rparr>"

text \<open>\<^verbatim>\<open>a - b\<close> and \<^verbatim>\<open>a + b\<close>: the right operand is brought into the left operand's unit.\<close>

definition q_sub :: "quantity \<Rightarrow> quantity \<Rightarrow> quantity" where
  "q_sub a b = \<lparr>magnitude = magnitude a - magnitude (rescale b (units a)), units = units a\<rparr>"

definition q_add :: "quantity \<Rightarrow> quantity \<Rightarrow> quantity" where
  "q_add a b = \<lparr>magnitude = magnitude a + magnitude (rescale b (units a)), units = units a\<rparr>"

text \<open>\<^verbatim>\<open>n * q\<close> for an integer \<^verbatim>\<open>n\<close>, and \<^verbatim>\<open>q + r\<close>, \<^verbatim>\<open>q / 2\<close> on magnitudes.\<close>

definition q_times :: "int \<Rightarrow> quantity \<Rightarrow> quantity" where
  "q_times n q = \<lparr>magnitude = of_int n * magnitude q, units = units q\<rparr>"

definition q_half :: "quantity \<Rightarrow> quantity" where
  "q_half q = \<lparr>magnitude = magnitude q / 2, units = units q\<rparr>"

text \<open>Comparisons rescale the right operand into the left operand's unit.\<close>

definition q_lt :: "quantity \<Rightarrow> quantity \<Rightarrow> bool" where
  "q_lt a b = (magnitude a < magnitude (rescale b (units a)))"

definition q_gt :: "quantity \<Rightarrow> quantity \<Rightarrow> bool" where
  "q_gt a b = (magnitude a > magnitude (rescale b (units a)))"

definition q_le :: "quantity \<Rightarrow> quantity \<Rightarrow> bool" where
  "q_le a b = (magnitude a \<le> magnitude (rescale b (units a)))"

definition q_ge :: "quantity \<Rightarrow> quantity \<Rightarrow> bool" where
  "q_ge a b = (magnitude a \<ge> magnitude (rescale b (units a)))"

text \<open>Truth value of a quantity (\<^verbatim>\<open>if self.t_start:\<close>): false exactly for magnitude zero.\<close>

definition q_truthy :: "quantity \<Rightarrow> bool" where
  "q_truthy q = (magnitude q \<noteq> 0)"

section \<open>Errors\<close>

text \<open>
  One constructor per \<^verbatim>\<open>raise\<close> of the class and per failure of a builtin the class
  calls. The names follow the error taxonomy of the specification; the Python exception
  and its message are given beside each.
\<close>

datatype error =
    NoArgumentsError               \<comment> \<open>ValueError: No arguments given\<close>
  | OrderingError                  \<comment> \<open>ValueError: t\_stop is smaller than t\_start\<close>
  | InsufficientParametersError    \<comment> \<open>AttributeError: Too less parameter given\<close>
  | DisjointIntervalsError         \<comment> \<open>ValueError: Starting time of each spike train must be smaller ...\<close>
  | StartOutOfRangeError           \<comment> \<open>ValueError: ... not defined in the time given by t\_start\<close>
  | InconsistentParametersError    \<comment> \<open>ValueError: Inconsistent arguments ...\<close>
  | StopTooLargeError              \<comment> \<open>ValueError: too many / too large time bins ...\<close>
  | NonIntegerBinCountError        \<comment> \<open>TypeError: Number of bins (num\_bins) is not an integer\<close>
  | StopOutOfRangeError            \<comment> \<open>ValueError: ... not defined in the time given by t\_stop\<close>
  | EmptyRangeError                \<comment> \<open>ValueError: Calculated matrix columns and/or num\_bins are smaller than 1\<close>
  | ColumnIndexError               \<comment> \<open>IndexError raised again by the matrix methods\<close>
  | EmptySequenceError             \<comment> \<open>ValueError of max() or min() on an empty list\<close>
  | NoneOperandError               \<comment> \<open>TypeError: an operand is None\<close>
  | NonFiniteError                 \<comment> \<open>a division by magnitude zero: the float is inf or nan\<close>
  | DimensionError                 \<comment> \<open>ValueError of np.hstack or np.zeros on mismatched or negative dimensions\<close>
  | ItemIndexError                 \<comment> \<open>IndexError of filled[0] on an empty list\<close>
  | RecursionLimitError            \<comment> \<open>RuntimeError: maximum recursion depth exceeded\<close>

definition and_then :: "error + 'a \<Rightarrow> ('a \<Rightarrow> error + 'b) \<Rightarrow> error + 'b" where
  "and_then r f = (case r of Inl e \<Rightarrow> Inl e | Inr v \<Rightarrow> f v)"

section \<open>Calculating a missing parameter\<close>

text \<open>\<^verbatim>\<open>int(x)\<close> of a float, and \<^verbatim>\<open>dtype=int\<close>: truncation towards zero.\<close>

definition py_int :: "rat \<Rightarrow> int" where
  "py_int x = (if 0 \<le> x then \<lfloor>x\<rfloor> else \<lceil>x\<rceil>)"

text \<open>
  \<^verbatim>\<open>int((x.rescale(b.units) / b).magnitude)\<close>. With magnitude zero for \<^verbatim>\<open>b\<close> the float
  quotient is inf or nan and \<^verbatim>\<open>int\<close> raises.
\<close>

definition ratio_int :: "quantity \<Rightarrow> quantity \<Rightarrow> error + int" where
  "ratio_int x b =
     (if magnitude b = 0 then Inl NonFiniteError
      else Inr (py_int (magnitude (rescale x (units b)) / magnitude b)))"

definition calc_tstart :: "int option \<Rightarrow> quantity option \<Rightarrow> quantity option \<Rightarrow> quantity option" where
  "calc_tstart num_bins binsize t_stop =
     (case (num_bins, binsize, t_stop) of
        (Some n, Some b, Some e) \<Rightarrow> Some (q_sub (rescale e (units b)) (q_times n b))
      | _ \<Rightarrow> None)"

definition calc_tstop :: "int option \<Rightarrow> quantity option \<Rightarrow> quantity option \<Rightarrow> quantity option" where
  "calc_tstop num_bins binsize t_start =
     (case (num_bins, binsize, t_start) of
        (Some n, Some b, Some s) \<Rightarrow> Some (q_add (rescale s (units b)) (q_times n b))
      | _ \<Rightarrow> None)"

definition calc_num_bins ::
  "quantity option \<Rightarrow> quantity option \<Rightarrow> quantity option \<Rightarrow> error + int option" where
  "calc_num_bins binsize t_start t_stop =
     (case (binsize, t_start, t_stop) of
        (Some b, Some s, Some e) \<Rightarrow>
          (if q_lt e s then Inl OrderingError
           else and_then (ratio_int (q_sub e s) b) (\<lambda>n. Inr (Some n)))
      | _ \<Rightarrow> Inr None)"

text \<open>
  \<^verbatim>\<open>(t_stop - t_start) / num_bins\<close>: the result is in the unit of \<^verbatim>\<open>t_stop\<close>. With
  \<^verbatim>\<open>num_bins = 0\<close> the float result is inf or nan, which has no rational value; the model
  stops there with \<open>NonFiniteError\<close>.
\<close>

definition calc_binsize ::
  "int option \<Rightarrow> quantity option \<Rightarrow> quantity option \<Rightarrow> error + quantity option" where
  "calc_binsize num_bins t_start t_stop =
     (case (num_bins, t_start, t_stop) of
        (Some n, Some s, Some e) \<Rightarrow>
          (if q_lt e s then Inl OrderingError
           else if n = 0 then Inl NonFiniteError
           else Inr (Some \<lparr>magnitude = magnitude (q_sub e s) / of_int n, units = units e\<rparr>))
      | _ \<Rightarrow> Inr None)"

section \<open>Spike trains and the binned representation\<close>

text \<open>
  A \<^verbatim>\<open>neo.SpikeTrain\<close>: the spike times as magnitudes in the train's unit, and the
  interval on which the train is defined.
\<close>

record spiketrain =
  train_times :: "rat list"
  train_units :: time_unit
  train_start :: quantity
  train_stop :: quantity

type_synonym rows = "int list list"
type_synonym matrix = "nat list list"

text \<open>
  The attributes of a \<^verbatim>\<open>binned_st\<close> instance. \<open>filled\<close> is the entry of the instance
  dictionary; its type is a parameter, since \<^verbatim>\<open>__init__\<close> creates it late (line 347) and
  \<^verbatim>\<open>__add__\<close> stores values of another shape in it.
\<close>

record 'f binned_st =
  lst_input :: "spiketrain list"
  t_start :: "quantity option"
  t_stop :: "quantity option"
  num_bins :: "int option"
  binsize :: "quantity option"
  matrix_columns :: "int option"
  matrix_rows :: nat
  store_mat_c :: bool
  store_mat_u :: bool
  mat_c :: "matrix option"
  mat_u :: "matrix option"
  filled :: 'f

definition with_filled :: "'a binned_st \<Rightarrow> 'f \<Rightarrow> 'f binned_st" where
  "with_filled self f =
     \<lparr>lst_input = lst_input self, t_start = t_start self, t_stop = t_stop self,
      num_bins = num_bins self, binsize = binsize self,
      matrix_columns = matrix_columns self, matrix_rows = matrix_rows self,
      store_mat_c = store_mat_c self, store_mat_u = store_mat_u self,
      mat_c = mat_c self, mat_u = mat_u self, filled = f\<rparr>"

subsection \<open>The \<open>filled\<close> property\<close>

text \<open>
  Lines 512 to 538 declare \<^verbatim>\<open>filled\<close> as a property whose getter returns
  \<^verbatim>\<open>self.filled\<close> and whose setter assigns \<^verbatim>\<open>self.filled = f\<close>. What an access
  \<^verbatim>\<open>self.filled\<close> does depends on the kind of class. \<^verbatim>\<open>class binned_st:\<close> names no base
  class. Under Python 2, which the module is written for (\<^verbatim>\<open>itertools.izip\<close> at line 976,
  \<^verbatim>\<open>xrange\<close> at line 1265, \<^verbatim>\<open>print x.filled\<close> in the doctests), that is a classic class:
  an assignment to an attribute of an instance stores into the instance dictionary and
  never calls a property's setter, and a read finds the dictionary entry before the
  class attribute. For a new-style class the property takes part in every access, and
  each accessor enters itself again until the interpreter's recursion limit is reached.
  \<open>NewStyle d\<close> carries the number of frames still available.
\<close>

datatype class_model = Classic | NewStyle nat

text \<open>
  The setter (\<^verbatim>\<open>self.filled = f\<close>) and the getter (\<^verbatim>\<open>return self.filled\<close>) as they run
  when the property is in force: each call uses one frame and makes the same access again.
\<close>

fun filled_setter :: "nat \<Rightarrow> 'a binned_st \<Rightarrow> 'f \<Rightarrow> error + 'f binned_st" where
  "filled_setter 0 self f = Inl RecursionLimitError"
| "filled_setter (Suc d) self f = filled_setter d self f"

fun filled_getter :: "nat \<Rightarrow> 'f binned_st \<Rightarrow> error + 'f" where
  "filled_getter 0 self = Inl RecursionLimitError"
| "filled_getter (Suc d) self = filled_getter d self"

text \<open>The assignment \<^verbatim>\<open>self.filled = f\<close> and the read \<^verbatim>\<open>self.filled\<close>.\<close>

fun setattr_filled :: "class_model \<Rightarrow> 'a binned_st \<Rightarrow> 'f \<Rightarrow> error + 'f binned_st" where
  "setattr_filled Classic self f = Inr (with_filled self f)"
| "setattr_filled (NewStyle d) self f = filled_setter d self f"

fun getattr_filled :: "class_model \<Rightarrow> 'f binned_st \<Rightarrow> error + 'f" where
  "getattr_filled Classic self = Inr (filled self)"
| "getattr_filled (NewStyle d) self = filled_getter d self"

subsection \<open>Start and stop from the input\<close>

text \<open>\<^verbatim>\<open>max\<close> and \<^verbatim>\<open>min\<close> of a list keep the first of several equal extremes.\<close>

fun py_max :: "quantity list \<Rightarrow> error + quantity" where
  "py_max [] = Inl EmptySequenceError"
| "py_max (x # xs) = Inr (foldl (\<lambda>m y. if q_gt y m then y else m) x xs)"

fun py_min :: "quantity list \<Rightarrow> error + quantity" where
  "py_min [] = Inl EmptySequenceError"
| "py_min (x # xs) = Inr (foldl (\<lambda>m y. if q_lt y m then y else m) x xs)"

definition set_start_stop_from_input :: "spiketrain list \<Rightarrow> error + quantity \<times> quantity" where
  "set_start_stop_from_input spiketrains =
     and_then (py_max (map train_start spiketrains)) (\<lambda>start.
     and_then (py_min (map train_stop spiketrains)) (\<lambda>stop.
     Inr (start, stop)))"

text \<open>
  \<^verbatim>\<open>__count_params\<close> counts the parameters that are true as Python values: \<^verbatim>\<open>None\<close>, a
  quantity of magnitude zero and the integer zero do not count.
\<close>

fun truthy_q :: "quantity option \<Rightarrow> bool" where
  "truthy_q None = False"
| "truthy_q (Some q) = q_truthy q"

fun truthy_int :: "int option \<Rightarrow> bool" where
  "truthy_int None = False"
| "truthy_int (Some n) = (n \<noteq> 0)"

definition count_params :: "'f binned_st \<Rightarrow> bool" where
  "count_params self =
     (let param_count =
        (if truthy_q (t_start self) then 1 else 0) +
        (if truthy_q (t_stop self) then 1 else 0) +
        (if truthy_q (binsize self) then 1 else 0) +
        (if truthy_int (num_bins self) then (1::nat) else 0)
      in if param_count < 3 then False else True)"

text \<open>Lines 415 to 419; both tests read \<^verbatim>\<open>self.t_stop\<close>, as the source does.\<close>

definition calc_start_stop :: "'f binned_st \<Rightarrow> spiketrain list \<Rightarrow> error + 'f binned_st" where
  "calc_start_stop self spiketrains =
     (if \<not> count_params self then
        and_then
          (if t_stop self = None
           then and_then (set_start_stop_from_input spiketrains)
                  (\<lambda>p. Inr (self\<lparr>t_start := Some (fst p)\<rparr>))
           else Inr self)
          (\<lambda>self1.
             if t_stop self1 = None
             then and_then (set_start_stop_from_input spiketrains)
                    (\<lambda>p. Inr (self1\<lparr>t_stop := Some (snd p)\<rparr>))
             else Inr self1)
      else Inr self)"

subsection \<open>The parameter resolver\<close>

text \<open>
  \<^verbatim>\<open>__check_init_params\<close>. The test \<^verbatim>\<open>type(num_bins) is not int\<close> has no counterpart:
  \<open>num_bins\<close> is an \<open>int option\<close> here.
\<close>

definition check_init_params ::
  "'f binned_st \<Rightarrow> quantity option \<Rightarrow> int option \<Rightarrow> quantity option \<Rightarrow> quantity option
   \<Rightarrow> error + 'f binned_st" where
  "check_init_params self binsize' num_bins' t_start' t_stop' =
     (if binsize' = None \<and> t_start' = None \<and> t_stop' = None \<and> num_bins' = None
      then Inl NoArgumentsError
      else if t_start' = None
      then Inr (self\<lparr>t_start := calc_tstart num_bins' binsize' t_stop'\<rparr>)
      else if t_stop' = None
      then Inr (self\<lparr>t_stop := calc_tstop num_bins' binsize' t_start'\<rparr>)
      else if num_bins' = None
      then and_then (calc_num_bins binsize' t_start' t_stop') (\<lambda>n.
             let self1 = self\<lparr>num_bins := n\<rparr>
             in Inr (if matrix_columns self1 = None
                     then self1\<lparr>matrix_columns := num_bins self1\<rparr> else self1))
      else if binsize' = None
      then and_then (calc_binsize num_bins' t_start' t_stop') (\<lambda>b. Inr (self\<lparr>binsize := b\<rparr>))
      else Inr self)"

subsection \<open>The consistency validator\<close>

text \<open>\<^verbatim>\<open>x < 1\<close> for an integer or \<^verbatim>\<open>None\<close>; Python 2 orders \<^verbatim>\<open>None\<close> below every number.\<close>

fun less_than_one :: "int option \<Rightarrow> bool" where
  "less_than_one None = True"
| "less_than_one (Some k) = (k < 1)"

text \<open>
  \<^verbatim>\<open>__check_consistency\<close>, lines 465 to 510. An operand that is \<^verbatim>\<open>None\<close> where the source
  computes with it is \<open>NoneOperandError\<close>. For an integer \<^verbatim>\<open>num_bins\<close> the test
  \<^verbatim>\<open>num_bins - int(num_bins) != 0\<close> is false, which leaves \<^verbatim>\<open>num_bins < 0\<close>.
\<close>

definition check_consistency ::
  "'f binned_st \<Rightarrow> spiketrain list \<Rightarrow> quantity option \<Rightarrow> int option \<Rightarrow> quantity option
   \<Rightarrow> quantity option \<Rightarrow> error + unit" where
  "check_consistency self spiketrains binsize' num_bins' t_start' t_stop' =
     (if \<not> count_params self then Inl InsufficientParametersError
      else
        and_then (py_max (map train_start spiketrains)) (\<lambda>max_tstart.
        and_then (py_min (map train_stop spiketrains)) (\<lambda>min_tstop.
          if q_ge max_tstart min_tstop then Inl DisjointIntervalsError
          else
            (case t_start' of None \<Rightarrow> Inl NoneOperandError | Some s \<Rightarrow>
              if q_lt s max_tstart \<or> q_gt s min_tstop then Inl StartOutOfRangeError
              else
                (case (num_bins', t_stop', binsize') of
                   (Some n, Some e, Some b) \<Rightarrow>
                     and_then (ratio_int (q_sub e s) b) (\<lambda>r.
                       if n \<noteq> r then Inl InconsistentParametersError
                       else if \<not> (q_lt s e \<and> q_le e min_tstop) then Inl StopTooLargeError
                       else if n < 0 then Inl NonIntegerBinCountError
                       else if q_gt e min_tstop \<or> q_lt e max_tstart then Inl StopOutOfRangeError
                       else if less_than_one (matrix_columns self) \<or> less_than_one (num_bins self)
                       then Inl EmptyRangeError
                       else Inr ())
                 | _ \<Rightarrow> Inl NoneOperandError)))))"

subsection \<open>The bin assigner\<close>

text \<open>
  Line 801 to 803 for one spike time \<open>t\<close>:
  \<^verbatim>\<open>((t - t_start).rescale(binsize.units) / binsize).magnitude\<close> converted with \<^verbatim>\<open>dtype=int\<close>.
\<close>

definition bin_index :: "quantity \<Rightarrow> quantity \<Rightarrow> quantity \<Rightarrow> int" where
  "bin_index start width t = py_int (magnitude (rescale (q_sub t start) (units width)) / magnitude width)"

definition spike_quantities :: "spiketrain \<Rightarrow> quantity list" where
  "spike_quantities elem = map (\<lambda>m. \<lparr>magnitude = m, units = train_units elem\<rparr>) (train_times elem)"

text \<open>Line 804: \<^verbatim>\<open>idx_filled[idx_filled < self.num_bins]\<close>.\<close>

definition binned_row :: "quantity \<Rightarrow> quantity \<Rightarrow> int \<Rightarrow> spiketrain \<Rightarrow> int list" where
  "binned_row start width n elem =
     filter (\<lambda>i. i < n) (map (bin_index start width) (spike_quantities elem))"

fun convert_to_binned ::
  "class_model \<Rightarrow> rows binned_st \<Rightarrow> spiketrain list \<Rightarrow> error + rows binned_st" where
  "convert_to_binned cm self [] = Inr self"
| "convert_to_binned cm self (elem # rest) =
     (case (t_start self, binsize self, num_bins self) of
        (Some s, Some b, Some n) \<Rightarrow>
          if magnitude b = 0 then Inl NonFiniteError
          else and_then (getattr_filled cm self) (\<lambda>f.
                 convert_to_binned cm (self\<lparr>filled := f @ [binned_row s b n elem]\<rparr>) rest)
      | _ \<Rightarrow> Inl NoneOperandError)"

subsection \<open>The constructor\<close>

text \<open>
  Lines 329 to 344 of \<^verbatim>\<open>__init__\<close>: the attributes as given, then start and stop from
  the input where they are needed, then the missing parameter. The instance has no
  \<open>filled\<close> yet.
\<close>

definition init_params ::
  "spiketrain list \<Rightarrow> quantity option \<Rightarrow> int option \<Rightarrow> quantity option
   \<Rightarrow> quantity option \<Rightarrow> bool \<Rightarrow> error + unit binned_st" where
  "init_params spiketrains binsize' num_bins' t_start' t_stop' store_mat =
     (let self0 =
        \<lparr>lst_input = spiketrains, t_start = t_start', t_stop = t_stop',
         num_bins = num_bins', binsize = binsize', matrix_columns = num_bins',
         matrix_rows = length spiketrains, store_mat_c = store_mat, store_mat_u = store_mat,
         mat_c = None, mat_u = None, filled = ()\<rparr>
      in
        and_then (calc_start_stop self0 spiketrains) (\<lambda>self1.
        check_init_params self1 binsize' num_bins' (t_start self1) (t_stop self1)))"

text \<open>Lines 345 and 346: the validator is given the attributes of the instance.\<close>

definition init_checks ::
  "spiketrain list \<Rightarrow> quantity option \<Rightarrow> int option \<Rightarrow> quantity option
   \<Rightarrow> quantity option \<Rightarrow> bool \<Rightarrow> error + unit binned_st" where
  "init_checks spiketrains binsize' num_bins' t_start' t_stop' store_mat =
     and_then (init_params spiketrains binsize' num_bins' t_start' t_stop' store_mat) (\<lambda>self2.
     and_then (check_consistency self2 spiketrains (binsize self2) (num_bins self2)
                 (t_start self2) (t_stop self2)) (\<lambda>_.
     Inr self2))"

text \<open>Lines 347 to 349: \<^verbatim>\<open>self.filled = []\<close>, then the rows are appended.\<close>

definition binned_st_init ::
  "class_model \<Rightarrow> spiketrain list \<Rightarrow> quantity option \<Rightarrow> int option \<Rightarrow> quantity option
   \<Rightarrow> quantity option \<Rightarrow> bool \<Rightarrow> error + rows binned_st" where
  "binned_st_init cm spiketrains binsize' num_bins' t_start' t_stop' store_mat =
     and_then (init_checks spiketrains binsize' num_bins' t_start' t_stop' store_mat) (\<lambda>self2.
     and_then (setattr_filled cm self2 []) (\<lambda>self3.
     convert_to_binned cm self3 spiketrains))"

subsection \<open>The edge calculator\<close>

text \<open>
  \<^verbatim>\<open>np.linspace(a, b, num, endpoint)\<close>: \<open>num\<close> evenly spaced points
  \<^verbatim>\<open>arange(0, num) * step + a\<close>, with \<^verbatim>\<open>step = (b - a) / (num - 1)\<close> when the end point is
  included and \<^verbatim>\<open>(b - a) / num\<close> when it is not; no point for \<open>num \<le> 0\<close>, and the single
  point \<open>a\<close> for \<open>num = 1\<close>. The arithmetic is that of quantities, so the points carry the
  unit of \<open>b - a\<close>.
\<close>

definition linspace :: "quantity \<Rightarrow> quantity \<Rightarrow> int \<Rightarrow> bool \<Rightarrow> quantity list" where
  "linspace a b num endpoint =
     (let d = (if endpoint then num - 1 else num);
          delta = q_sub b a;
          step = (if d = 0 then 0 else magnitude delta / of_int d)
      in map (\<lambda>i. q_add \<lparr>magnitude = of_nat i * step, units = units delta\<rparr> a) [0..<nat num])"

definition edges :: "'f binned_st \<Rightarrow> error + quantity list" where
  "edges self =
     (case (t_start self, t_stop self, num_bins self) of
        (Some s, Some e, Some n) \<Rightarrow> Inr (linspace s e (n + 1) True)
      | _ \<Rightarrow> Inl NoneOperandError)"

definition left_edges :: "'f binned_st \<Rightarrow> error + quantity list" where
  "left_edges self =
     (case (t_start self, t_stop self, num_bins self) of
        (Some s, Some e, Some n) \<Rightarrow> Inr (linspace s e n False)
      | _ \<Rightarrow> Inl NoneOperandError)"

definition right_edges :: "'f binned_st \<Rightarrow> error + quantity list" where
  "right_edges self =
     and_then (left_edges self) (\<lambda>l.
       case binsize self of
         None \<Rightarrow> Inl NoneOperandError
       | Some b \<Rightarrow> Inr (map (\<lambda>x. q_add x b) l))"

definition center_edges :: "'f binned_st \<Rightarrow> error + quantity list" where
  "center_edges self =
     and_then (left_edges self) (\<lambda>l.
       case binsize self of
         None \<Rightarrow> Inl NoneOperandError
       | Some b \<Rightarrow> Inr (map (\<lambda>x. q_add x (q_half b)) l))"

subsection \<open>The matrix materializer\<close>

text \<open>\<^verbatim>\<open>np.zeros((rows, columns))\<close>.\<close>

definition zeros :: "nat \<Rightarrow> int option \<Rightarrow> error + matrix" where
  "zeros r c =
     (case c of
        None \<Rightarrow> Inl NoneOperandError
      | Some k \<Rightarrow> if k < 0 then Inl DimensionError else Inr (replicate r (replicate (nat k) 0)))"

text \<open>
  A column index of numpy: \<open>j\<close> with \<open>0 \<le> j < columns\<close> is itself, a negative \<open>j\<close> down to
  \<open>- columns\<close> counts from the end, anything else raises \<^verbatim>\<open>IndexError\<close>.
\<close>

definition norm_index :: "nat \<Rightarrow> int \<Rightarrow> nat option" where
  "norm_index columns j =
     (if 0 \<le> j \<and> j < int columns then Some (nat j)
      else if - int columns \<le> j \<and> j < 0 then Some (nat (j + int columns))
      else None)"

text \<open>\<^verbatim>\<open>mat[elem_idx, elem] = 1\<close> for an index array \<open>elem\<close>.\<close>

definition assign_ones :: "matrix \<Rightarrow> nat \<Rightarrow> int list \<Rightarrow> error + matrix" where
  "assign_ones m r elem =
     (if length m \<le> r then Inl ColumnIndexError
      else
        (case those (map (norm_index (length (m ! r))) elem) of
           None \<Rightarrow> Inl ColumnIndexError
         | Some js \<Rightarrow> Inr (m[r := foldl (\<lambda>row j. row[j := 1]) (m ! r) js])))"

text \<open>\<^verbatim>\<open>for inner_elem in elem: mat[elem_idx, inner_elem] += 1\<close>.\<close>

fun add_counts :: "matrix \<Rightarrow> nat \<Rightarrow> int list \<Rightarrow> error + matrix" where
  "add_counts m r [] = Inr m"
| "add_counts m r (j # js) =
     (if length m \<le> r then Inl ColumnIndexError
      else
        (case norm_index (length (m ! r)) j of
           None \<Rightarrow> Inl ColumnIndexError
         | Some k \<Rightarrow> add_counts (m[r := (m ! r)[k := (m ! r) ! k + 1]]) r js))"

text \<open>The loop of the on-demand branch of \<^verbatim>\<open>matrix_clipped\<close>, lines 683 to 691.\<close>

fun fill_clipped :: "matrix \<Rightarrow> nat \<Rightarrow> rows \<Rightarrow> error + matrix" where
  "fill_clipped m i [] = Inr m"
| "fill_clipped m i (elem # rest) =
     (if length elem \<noteq> 0
      then and_then (assign_ones m i elem) (\<lambda>m'. fill_clipped m' (Suc i) rest)
      else fill_clipped m (Suc i) rest)"

text \<open>
  The loop of the storing branch of \<^verbatim>\<open>matrix_clipped\<close>, lines 669 to 678. The
  \<^verbatim>\<open>return self.mat_c\<close> of line 678 stands inside the body of the \<^verbatim>\<open>for\<close>, so the first
  pass through the loop returns; with no row at all the method falls off its end and
  returns \<^verbatim>\<open>None\<close>.
\<close>

fun fill_clipped_stored :: "matrix \<Rightarrow> rows \<Rightarrow> error + matrix option" where
  "fill_clipped_stored m [] = Inr None"
| "fill_clipped_stored m (elem # rest) =
     (if length elem \<noteq> 0
      then and_then (assign_ones m 0 elem) (\<lambda>m'. Inr (Some m'))
      else Inr (Some m))"

text \<open>
  \<^verbatim>\<open>matrix_clipped(store_mat=...)\<close>. The result is the returned value and the instance
  after the call; an exception ends the call. The test that \<^verbatim>\<open>store_mat\<close> is a boolean
  has no counterpart here.
\<close>

definition matrix_clipped ::
  "bool option \<Rightarrow> rows binned_st \<Rightarrow> error + matrix option \<times> rows binned_st" where
  "matrix_clipped store_mat self =
     (let self1 = (case store_mat of None \<Rightarrow> self | Some b \<Rightarrow> self\<lparr>store_mat_c := b\<rparr>)
      in case mat_c self1 of
           Some m \<Rightarrow> Inr (Some m, self1)
         | None \<Rightarrow>
             and_then (zeros (matrix_rows self1) (matrix_columns self1)) (\<lambda>z.
               if store_mat_c self1
               then and_then (fill_clipped_stored z (filled self1)) (\<lambda>r.
                      Inr (r, self1\<lparr>mat_c := Some (case r of None \<Rightarrow> z | Some m \<Rightarrow> m)\<rparr>))
               else and_then (fill_clipped z 0 (filled self1)) (\<lambda>m. Inr (Some m, self1))))"

text \<open>The loops of \<^verbatim>\<open>matrix_unclipped\<close>: lines 745 to 756 (storing) and 761 to 773.\<close>

fun fill_unclipped_stored :: "matrix \<Rightarrow> nat \<Rightarrow> rows \<Rightarrow> error + matrix" where
  "fill_unclipped_stored m i [] = Inr m"
| "fill_unclipped_stored m i (elem # rest) =
     (if length elem \<noteq> 0
      then and_then (if length elem \<ge> 1 then add_counts m i elem else Inr m)
             (\<lambda>m'. fill_unclipped_stored m' (Suc i) rest)
      else fill_unclipped_stored m (Suc i) rest)"

fun fill_unclipped :: "matrix \<Rightarrow> nat \<Rightarrow> rows \<Rightarrow> error + matrix" where
  "fill_unclipped m i [] = Inr m"
| "fill_unclipped m i (elem # rest) =
     (if length elem \<noteq> 0
      then and_then (if length elem > 1 then add_counts m i elem else add_counts m i [hd elem])
             (\<lambda>m'. fill_unclipped m' (Suc i) rest)
      else fill_unclipped m (Suc i) rest)"

definition matrix_unclipped ::
  "bool option \<Rightarrow> rows binned_st \<Rightarrow> error + matrix option \<times> rows binned_st" where
  "matrix_unclipped store_mat self =
     (let self1 = (case store_mat of None \<Rightarrow> self | Some b \<Rightarrow> self\<lparr>store_mat_u := b\<rparr>)
      in case mat_u self1 of
           Some m \<Rightarrow> Inr (Some m, self1)
         | None \<Rightarrow>
             and_then (zeros (matrix_rows self1) (matrix_columns self1)) (\<lambda>z.
               if store_mat_u self1
               then and_then (fill_unclipped_stored z 0 (filled self1)) (\<lambda>m.
                      Inr (Some m, self1\<lparr>mat_u := Some m\<rparr>))
               else and_then (fill_unclipped z 0 (filled self1)) (\<lambda>m. Inr (Some m, self1))))"

subsection \<open>The algebraic combinator\<close>

text \<open>
  \<^verbatim>\<open>create_class\<close>, lines 1024 to 1035. The dummy spike train has no spikes, the default
  start \<^verbatim>\<open>0 s\<close> of \<^verbatim>\<open>neo.SpikeTrain\<close> and the given stop, kept in the train's unit. Line
  1034 assigns \<^verbatim>\<open>matrix_col\<close>, an attribute nothing reads; \<open>matrix_columns\<close> keeps the value
  the constructor computed.
\<close>

definition create_class ::
  "class_model \<Rightarrow> quantity option \<Rightarrow> quantity option \<Rightarrow> quantity option \<Rightarrow> nat \<Rightarrow> int option
   \<Rightarrow> error + rows binned_st" where
  "create_class cm start stop binsize' mat_row mat_col =
     (case stop of
        None \<Rightarrow> Inl NoneOperandError
      | Some e \<Rightarrow>
          (let spk = \<lparr>train_times = [], train_units = Sec,
                      train_start = \<lparr>magnitude = 0, units = Sec\<rparr>,
                      train_stop = rescale e Sec\<rparr>
           in and_then (binned_st_init cm [spk] binsize' None start stop False) (\<lambda>new_class.
              and_then (getattr_filled cm new_class) (\<lambda>f.
              Inr (new_class\<lparr>filled := [], matrix_rows := mat_row\<rparr>)))))"

text \<open>
  \<^verbatim>\<open>np.hstack((self.filled, other.filled))\<close>, reached when neither list has more than one
  row: two lists of one row give one row, the first followed by the second; two empty
  lists give an empty array; an empty list beside a row is a mismatch of dimensions.
\<close>

fun hstack :: "rows \<Rightarrow> rows \<Rightarrow> error + rows" where
  "hstack [a] [b] = Inr [a @ b]"
| "hstack [] [] = Inr []"
| "hstack _ _ = Inl DimensionError"

text \<open>
  What \<^verbatim>\<open>__add__\<close> stores in \<open>filled\<close>: the two-dimensional array of \<^verbatim>\<open>np.hstack\<close>, or the
  two-element list \<^verbatim>\<open>[self.filled, other.filled]\<close> of line 890.
\<close>

datatype added = Stacked rows | Listed rows rows

definition add :: "class_model \<Rightarrow> rows binned_st \<Rightarrow> rows binned_st \<Rightarrow> error + added binned_st" where
  "add cm self other =
     and_then (create_class cm (t_start self) (t_stop self) (binsize self)
                 (matrix_rows self) (matrix_columns self)) (\<lambda>new_class.
       if length (filled self) > 1 \<or> length (filled other) > 1
       then setattr_filled cm new_class (Listed (filled self) (filled other))
       else and_then (hstack (filled self) (filled other)) (\<lambda>h.
              setattr_filled cm new_class (Stacked h)))"



section \<open>Values of the doctests\<close>

text \<open>\<^verbatim>\<open>x * pq.s\<close>, and the spike trains \<^verbatim>\<open>a\<close> and \<^verbatim>\<open>b\<close> of the doctests of the class.\<close>

definition seconds :: "rat \<Rightarrow> quantity" where
  "seconds x = \<lparr>magnitude = x, units = Sec\<rparr>"

definition train_a :: spiketrain where
  "train_a =
     \<lparr>train_times = [1 / 2, 7 / 10, 12 / 10, 31 / 10, 43 / 10, 55 / 10, 67 / 10],
      train_units = Sec, train_start = seconds 0, train_stop = seconds 10\<rparr>"

definition train_b :: spiketrain where
  "train_b =
     \<lparr>train_times = [1 / 10, 7 / 10, 12 / 10, 22 / 10, 43 / 10, 55 / 10, 8],
      train_units = Sec, train_start = seconds 0, train_stop = seconds 10\<rparr>"

text \<open>
  \<^verbatim>\<open>x = rep.binned_st(a, num_bins=10, binsize=1 * pq.s, t_start=0 * pq.s)\<close> as the doctests
  print it.
\<close>

definition x_a :: "rows binned_st" where
  "x_a =
     \<lparr>lst_input = [train_a], t_start = Some (seconds 0), t_stop = Some (seconds 10),
      num_bins = Some 10, binsize = Some (seconds 1), matrix_columns = Some 10,
      matrix_rows = 1, store_mat_c = False, store_mat_u = False, mat_c = None, mat_u = None,
      filled = [[0, 0, 1, 3, 4, 5, 6]]\<rparr>"

text \<open>
  \<^verbatim>\<open>y = rep.binned_st(b, binsize=pq.s, t_start=0 * pq.s, t_stop=10. * pq.s)\<close>, and the
  instance of both trains, \<^verbatim>\<open>rep.binned_st([a, b], binsize=pq.s, t_start=0 * pq.s, t_stop=10. * pq.s)\<close>.
\<close>

definition x_b :: "rows binned_st" where
  "x_b =
     \<lparr>lst_input = [train_b], t_start = Some (seconds 0), t_stop = Some (seconds 10),
      num_bins = Some 10, binsize = Some (seconds 1), matrix_columns = Some 10,
      matrix_rows = 1, store_mat_c = False, store_mat_u = False, mat_c = None, mat_u = None,
      filled = [[0, 0, 1, 2, 4, 5, 8]]\<rparr>"

definition x_ab :: "rows binned_st" where
  "x_ab =
     \<lparr>lst_input = [train_a, train_b], t_start = Some (seconds 0), t_stop = Some (seconds 10),
      num_bins = Some 10, binsize = Some (seconds 1), matrix_columns = Some 10,
      matrix_rows = 2, store_mat_c = False, store_mat_u = False, mat_c = None, mat_u = None,
      filled = [[0, 0, 1, 3, 4, 5, 6], [0, 0, 1, 2, 4, 5, 8]]\<rparr>"

section \<open>The order of the checks, as the specification lists them\<close>

text \<open>
  The seven conditions of the consistency validator in the order of the specification,
  with the error of the first one that is violated; \<open>None\<close> when all hold. The values are
  compared in seconds. \<open>int_part\<close> is the function that takes the integer part of the
  quotient in condition 3: the specification names \<open>floor\<close>, the source calls \<^verbatim>\<open>int\<close>.
\<close>

definition spec_first_violation ::
  "(rat \<Rightarrow> int) \<Rightarrow> spiketrain list \<Rightarrow> quantity \<Rightarrow> int \<Rightarrow> quantity \<Rightarrow> quantity
   \<Rightarrow> error option" where
  "spec_first_violation int_part sts width n start stop =
     (let max_start = Max (set (map (\<lambda>t. secs (train_start t)) sts));
          min_stop = Min (set (map (\<lambda>t. secs (train_stop t)) sts))
      in if \<not> max_start < min_stop then Some DisjointIntervalsError
         else if \<not> (max_start \<le> secs start \<and> secs start \<le> min_stop)
         then Some StartOutOfRangeError
         else if n \<noteq> int_part ((secs stop - secs start) / secs width)
         then Some InconsistentParametersError
         else if \<not> (secs start < secs stop \<and> secs stop \<le> min_stop)
         then Some StopTooLargeError
         else if n < 0 then Some NonIntegerBinCountError
         else if \<not> (max_start \<le> secs stop \<and> secs stop \<le> min_stop)
         then Some StopOutOfRangeError
         else if n < 1 then Some EmptyRangeError
         else None)"

section \<open>Basic facts\<close>

lemma factor_pos: "0 < factor u"
  by (cases u) simp_all


lemma secs_q_sub: "secs (q_sub a b) = secs a - secs b"
  using factor_pos [of "units a"]
  by (simp add: secs_def q_sub_def rescale_def field_simps)

lemma secs_q_add: "secs (q_add a b) = secs a + secs b"
  using factor_pos [of "units a"]
  by (simp add: secs_def q_add_def rescale_def field_simps)


lemma q_lt_secs: "q_lt a b \<longleftrightarrow> secs a < secs b"
  using factor_pos [of "units a"]
  by (simp add: q_lt_def secs_def rescale_def field_simps)

lemma secs_q_half: "secs (q_half q) = secs q / 2"
  by (simp add: secs_def q_half_def)

lemma and_then_simps [simp]: "and_then (Inl e) f = Inl e" "and_then (Inr v) f = f v"
  by (simp_all add: and_then_def)

lemma and_then_Inr_iff: "and_then r f = Inr y \<longleftrightarrow> (\<exists>v. r = Inr v \<and> f v = Inr y)"
  by (cases r) simp_all

section \<open>The \<open>filled\<close> property and the constructor\<close>

text \<open>What the checks establish, and the rows the classic constructor stores.\<close>

lemma check_consistency_Inr:
  assumes "check_consistency self sts b n s e = Inr ()"
  shows "\<exists>s' e' w k mx mn. s = Some s' \<and> e = Some e' \<and> b = Some w \<and> n = Some k
           \<and> py_max (map train_start sts) = Inr mx \<and> py_min (map train_stop sts) = Inr mn
           \<and> count_params self \<and> \<not> q_ge mx mn
           \<and> \<not> q_lt s' mx \<and> \<not> q_gt s' mn
           \<and> ratio_int (q_sub e' s') w = Inr k
           \<and> q_lt s' e' \<and> q_le e' mn \<and> 0 \<le> k
           \<and> \<not> less_than_one (matrix_columns self) \<and> \<not> less_than_one (num_bins self)"
  using assms
  by (auto simp: check_consistency_def and_then_Inr_iff
      split: if_splits option.splits)

lemma ratio_int_Inr: "ratio_int x w = Inr k \<Longrightarrow> magnitude w \<noteq> 0"
  by (auto simp: ratio_int_def split: if_splits)

lemma convert_classic:
  assumes "t_start self = Some s" and "binsize self = Some w" and "num_bins self = Some k"
    and "magnitude w \<noteq> 0"
  shows "convert_to_binned Classic self sts
           = Inr (self\<lparr>filled := filled self @ map (binned_row s w k) sts\<rparr>)"
  using assms by (induction sts arbitrary: self) simp_all

lemma init_checks_Inr:
  assumes "init_checks sts b n s e sm = Inr v"
  shows "check_consistency v sts (binsize v) (num_bins v) (t_start v) (t_stop v) = Inr ()"
  using assms by (auto simp: init_checks_def and_then_Inr_iff)

lemma init_classic:
  assumes "init_checks sts b n s e sm = Inr v"
  shows "\<exists>s' w k. t_start v = Some s' \<and> binsize v = Some w \<and> num_bins v = Some k
           \<and> binned_st_init Classic sts b n s e sm
               = Inr (with_filled v (map (binned_row s' w k) sts))"
proof -
  from check_consistency_Inr [OF init_checks_Inr [OF assms]]
  obtain s' e' w k where f: "t_start v = Some s'" "binsize v = Some w" "num_bins v = Some k"
    and r: "ratio_int (q_sub e' s') w = Inr k"
    by blast
  have "magnitude w \<noteq> 0" using r by (rule ratio_int_Inr)
  then have "convert_to_binned Classic (with_filled v []) sts
           = Inr (with_filled v (map (binned_row s' w k) sts))"
    using f by (simp add: convert_classic [of _ s' w k] with_filled_def)
  then show ?thesis
    using f assms by (simp add: binned_st_init_def)
qed

lemma filled_setter_fails: "filled_setter d self f = Inl RecursionLimitError"
  by (induction d) simp_all

lemma filled_getter_fails: "filled_getter d self = Inl RecursionLimitError"
  by (induction d) simp_all

text \<open>
  Claim C2, as stated: for every input, constructing a \<^verbatim>\<open>binned_st\<close> instance never
  terminates normally. For the class as the module declares it, a classic class of
  Python 2, the statement fails: the first doctest of the class constructs the instance
  the doctests print.
\<close>

theorem C2_doctest_instance_is_constructed:
  "binned_st_init Classic [train_a] (Some (seconds 1)) (Some 10) (Some (seconds 0)) None False
     = Inr x_a"
  by code_simp

text \<open>
  Claim C2, amended: where the property is in force (a new-style class), the constructor
  returns no instance for any input and any recursion limit, and every assignment to
  \<open>filled\<close> and every read of it ends at the recursion limit, since the setter and the
  getter enter themselves again; for the classic class the assignment stores the value
  and the read returns it, and neither calls an accessor, so the constructor returns an
  instance exactly when the parameters pass the three checks of lines 343 to 346, and
  fails with the error of the checks otherwise.
\<close>

theorem C2_filled_property:
  "(\<forall>d sts b n s e sm x. binned_st_init (NewStyle d) sts b n s e sm \<noteq> Inr x)
   \<and> (\<forall>d (self :: 'a binned_st) (f :: 'f).
         setattr_filled (NewStyle d) self f = Inl RecursionLimitError)
   \<and> (\<forall>d (self :: 'f binned_st). getattr_filled (NewStyle d) self = Inl RecursionLimitError)
   \<and> (\<forall>(self :: 'a binned_st) (f :: 'f).
         setattr_filled Classic self f = Inr (with_filled self f))
   \<and> (\<forall>(self :: 'f binned_st). getattr_filled Classic self = Inr (filled self))
   \<and> (\<forall>sts b n s e sm.
         (\<exists>x. binned_st_init Classic sts b n s e sm = Inr x)
           \<longleftrightarrow> (\<exists>v. init_checks sts b n s e sm = Inr v))
   \<and> (\<forall>sts b n s e sm err.
         binned_st_init Classic sts b n s e sm = Inl err
           \<longleftrightarrow> init_checks sts b n s e sm = Inl err)"
proof -
  have a: "(\<exists>x. binned_st_init Classic sts b n s e sm = Inr x)
           \<longleftrightarrow> (\<exists>v. init_checks sts b n s e sm = Inr v)" for sts b n s e sm
    using init_classic [of sts b n s e sm]
    by (auto simp: binned_st_init_def and_then_Inr_iff)
  have b: "binned_st_init Classic sts b n s e sm = Inl err
           \<longleftrightarrow> init_checks sts b n s e sm = Inl err" for sts b n s e sm err
  proof (cases "init_checks sts b n s e sm")
    case (Inl e') then show ?thesis by (simp add: binned_st_init_def)
  next
    case (Inr v) then show ?thesis using init_classic [OF Inr] by auto
  qed
  show ?thesis
    using a b
    by (auto simp: binned_st_init_def Let_def and_then_Inr_iff filled_setter_fails
      filled_getter_fails)
qed

theorem C2_filled_property_witness:
  "binned_st_init (NewStyle 1000) [train_a] (Some (seconds 1)) (Some 10) (Some (seconds 0))
      None False \<noteq> Inr x_a
   \<and> setattr_filled (NewStyle 1000) x_a [[0 :: int]] = Inl RecursionLimitError
   \<and> getattr_filled Classic x_a = Inr [[0, 0, 1, 3, 4, 5, 6]]
   \<and> init_checks [train_a] (Some (seconds 1)) (Some 10) (Some (seconds 0)) None False
        = Inr (with_filled x_a ())
   \<and> (\<exists>x. binned_st_init Classic [train_a] (Some (seconds 1)) (Some 10) (Some (seconds 0))
             None False = Inr x)"
proof -
  have "getattr_filled Classic x_a = Inr (filled x_a)"
    using C2_filled_property [where ?'f = rows] by auto
  moreover have "setattr_filled (NewStyle 1000) x_a [[0 :: int]] = Inl RecursionLimitError"
    using C2_filled_property [where ?'a = rows and ?'f = rows] by auto
  moreover have
    "binned_st_init (NewStyle 1000) [train_a] (Some (seconds 1)) (Some 10) (Some (seconds 0))
       None False \<noteq> Inr x_a"
    using C2_filled_property [where ?'f = rows] by auto
  moreover have c: "init_checks [train_a] (Some (seconds 1)) (Some 10) (Some (seconds 0)) None False
        = Inr (with_filled x_a ())"
    by code_simp
  moreover have "\<exists>x. binned_st_init Classic [train_a] (Some (seconds 1)) (Some 10)
                        (Some (seconds 0)) None False = Inr x"
    using C2_filled_property [where ?'f = rows] c by auto
  ultimately show ?thesis by (simp add: x_a_def)
qed

section \<open>The edge calculator\<close>

lemma linspace_secs:
  "map secs (linspace a b num ep) =
     map (\<lambda>i. secs a + of_nat i *
                (if (if ep then num - 1 else num) = 0 then 0
                 else (secs b - secs a) / of_int (if ep then num - 1 else num)))
       [0..<nat num]"
proof -
  have scaled: "secs \<lparr>magnitude = c * magnitude (q_sub b a), units = units (q_sub b a)\<rparr>
                  = c * (secs b - secs a)" for c
    using secs_q_sub [of b a] by (simp add: secs_def)
  have zero: "secs \<lparr>magnitude = 0, units = u\<rparr> = 0" for u
    by (simp add: secs_def)
  show ?thesis
    using scaled [of "of_nat i / of_int k" for i k]
    by (auto simp add: linspace_def Let_def secs_q_add zero)
qed

text \<open>
  Claim C9: for a resolved instance with a bin count that is not negative, \<open>edges\<close> has
  \<open>num_bins + 1\<close> points, the point \<open>i\<close> at \<open>start + i * (stop - start) / num_bins\<close>;
  \<open>left_edges\<close> is the first \<open>num_bins\<close> of them; \<open>right_edges\<close> is \<open>left_edges\<close> shifted by
  the bin width and \<open>center_edges\<close> is \<open>left_edges\<close> shifted by half of it. The four are
  functions of the instance and change nothing, so a repeated call gives the same
  sequence. Values are compared in seconds.
\<close>

theorem C9_edges:
  assumes "t_start x = Some s" and "t_stop x = Some e" and "num_bins x = Some n"
    and "binsize x = Some w" and "0 \<le> n"
  shows "\<exists>es ls rs cs.
           edges x = Inr es \<and> left_edges x = Inr ls
         \<and> right_edges x = Inr rs \<and> center_edges x = Inr cs
         \<and> map secs es
             = map (\<lambda>i. secs s + of_nat i * (secs e - secs s) / of_int n) [0..<nat n + 1]
         \<and> ls = take (nat n) es
         \<and> map secs rs = map (\<lambda>q. secs q + secs w) ls
         \<and> map secs cs = map (\<lambda>q. secs q + secs w / 2) ls"
proof -
  have E: "edges x = Inr (linspace s e (n + 1) True)"
    using assms by (simp add: edges_def)
  have L: "left_edges x = Inr (linspace s e n False)"
    using assms by (simp add: left_edges_def)
  have points: "map secs (linspace s e (n + 1) True)
             = map (\<lambda>i. secs s + of_nat i * (secs e - secs s) / of_int n) [0..<nat n + 1]"
    using \<open>0 \<le> n\<close> by (simp add: linspace_secs nat_add_distrib)
  have prefix: "linspace s e n False = take (nat n) (linspace s e (n + 1) True)"
    using \<open>0 \<le> n\<close> by (simp add: linspace_def Let_def take_map nat_add_distrib)
  have R: "right_edges x = Inr (map (\<lambda>q. q_add q w) (linspace s e n False))"
    using L assms by (simp add: right_edges_def)
  have C: "center_edges x = Inr (map (\<lambda>q. q_add q (q_half w)) (linspace s e n False))"
    using L assms by (simp add: center_edges_def)
  show ?thesis
    unfolding E L R C using points prefix
    by (simp add: secs_q_add secs_q_half o_def)
qed

theorem C9_edges_witness:
  "\<exists>es ls rs cs.
     edges x_a = Inr es \<and> left_edges x_a = Inr ls
   \<and> right_edges x_a = Inr rs \<and> center_edges x_a = Inr cs
   \<and> map secs es
       = map (\<lambda>i. secs (seconds 0) + of_nat i * (secs (seconds 10) - secs (seconds 0)) / of_int 10)
           [0..<nat 10 + 1]
   \<and> ls = take (nat 10) es
   \<and> map secs rs = map (\<lambda>q. secs q + secs (seconds 1)) ls
   \<and> map secs cs = map (\<lambda>q. secs q + secs (seconds 1) / 2) ls"
  using C9_edges [of x_a "seconds 0" "seconds 10" 10 "seconds 1"] by (simp add: x_a_def)

section \<open>The instances of the doctests, constructed\<close>

lemma init_x_a:
  "binned_st_init Classic [train_a] (Some (seconds 1)) None (Some (seconds 0))
     (Some (seconds 10)) False = Inr x_a"
  by code_simp

lemma init_x_b:
  "binned_st_init Classic [train_b] (Some (seconds 1)) None (Some (seconds 0))
     (Some (seconds 10)) False = Inr x_b"
  by code_simp

lemma init_x_ab:
  "binned_st_init Classic [train_a, train_b] (Some (seconds 1)) None (Some (seconds 0))
     (Some (seconds 10)) False = Inr x_ab"
  by code_simp

section \<open>The consistency validator\<close>

lemma q_gt_secs: "q_gt a b \<longleftrightarrow> secs a > secs b"
  using factor_pos [of "units a"]
  by (simp add: q_gt_def secs_def rescale_def field_simps)

lemma q_le_secs: "q_le a b \<longleftrightarrow> secs a \<le> secs b"
  using factor_pos [of "units a"]
  by (simp add: q_le_def secs_def rescale_def field_simps)

lemma q_ge_secs: "q_ge a b \<longleftrightarrow> secs a \<ge> secs b"
  using factor_pos [of "units a"]
  by (simp add: q_ge_def secs_def rescale_def field_simps)

lemma ratio_secs: "magnitude (rescale x (units b)) / magnitude b = secs x / secs b"
  using factor_pos [of "units b"] by (simp add: rescale_def secs_def)

lemma Max_insert_max: "finite S \<Longrightarrow> Max (insert (max a b) S) = Max (insert a (insert b S))"
  for a b :: "'a :: linorder"
  by (cases "S = {}") (simp_all add: max.assoc)

lemma Min_insert_min: "finite S \<Longrightarrow> Min (insert (min a b) S) = Min (insert a (insert b S))"
  for a b :: "'a :: linorder"
  by (cases "S = {}") (simp_all add: min.assoc)

lemma foldl_max_secs:
  "secs (foldl (\<lambda>m y. if q_gt y m then y else m) x xs) = Max (set (map secs (x # xs)))"
proof (induction xs arbitrary: x)
  case Nil
  then show ?case by simp
next
  case (Cons y ys)
  have step: "secs (if q_gt y x then y else x) = max (secs x) (secs y)"
    by (simp add: q_gt_secs max_def)
  have "secs (foldl (\<lambda>m y. if q_gt y m then y else m) x (y # ys))
          = Max (insert (max (secs x) (secs y)) (set (map secs ys)))"
    using Cons.IH [of "if q_gt y x then y else x"] step by simp
  also have "\<dots> = Max (insert (secs x) (insert (secs y) (set (map secs ys))))"
    by (rule Max_insert_max) simp
  finally show ?case by simp
qed

lemma foldl_min_secs:
  "secs (foldl (\<lambda>m y. if q_lt y m then y else m) x xs) = Min (set (map secs (x # xs)))"
proof (induction xs arbitrary: x)
  case Nil
  then show ?case by simp
next
  case (Cons y ys)
  have step: "secs (if q_lt y x then y else x) = min (secs x) (secs y)"
    by (simp add: q_lt_secs min_def)
  have "secs (foldl (\<lambda>m y. if q_lt y m then y else m) x (y # ys))
          = Min (insert (min (secs x) (secs y)) (set (map secs ys)))"
    using Cons.IH [of "if q_lt y x then y else x"] step by simp
  also have "\<dots> = Min (insert (secs x) (insert (secs y) (set (map secs ys))))"
    by (rule Min_insert_min) simp
  finally show ?case by simp
qed

lemma py_max_secs: "xs \<noteq> [] \<Longrightarrow> \<exists>m. py_max xs = Inr m \<and> secs m = Max (set (map secs xs))"
  using foldl_max_secs by (cases xs) auto

lemma py_min_secs: "xs \<noteq> [] \<Longrightarrow> \<exists>m. py_min xs = Inr m \<and> secs m = Min (set (map secs xs))"
  using foldl_min_secs by (cases xs) auto

lemma ratio_int_secs:
  "magnitude b \<noteq> 0 \<Longrightarrow> ratio_int x b = Inr (py_int (secs x / secs b))"
  by (simp add: ratio_int_def ratio_secs)

lemma init_params_columns:
  assumes "init_params sts b n s e sm = Inr v"
  shows "matrix_columns v = num_bins v"
  using assms
  by (auto simp: init_params_def Let_def calc_start_stop_def check_init_params_def
      and_then_Inr_iff split: if_splits)

lemma check_consistency_order:
  assumes "sts \<noteq> []" and "magnitude width \<noteq> 0"
    and "matrix_columns self = Some n" and "num_bins self = Some n"
  shows "check_consistency self sts (Some width) (Some n) (Some start) (Some stop)
           = (if \<not> count_params self then Inl InsufficientParametersError
              else case spec_first_violation py_int sts width n start stop of
                     None \<Rightarrow> Inr () | Some err \<Rightarrow> Inl err)"
proof -
  obtain mx where mx: "py_max (map train_start sts) = Inr mx"
      "secs mx = Max (set (map (\<lambda>t. secs (train_start t)) sts))"
    using py_max_secs [of "map train_start sts"] assms(1) by (auto simp: o_def)
  obtain mn where mn: "py_min (map train_stop sts) = Inr mn"
      "secs mn = Min (set (map (\<lambda>t. secs (train_stop t)) sts))"
    using py_min_secs [of "map train_stop sts"] assms(1) by (auto simp: o_def)
  show ?thesis
    using assms(2-4) mx(1) mn(1)
    unfolding check_consistency_def spec_first_violation_def Let_def
      mx(2) [symmetric] mn(2) [symmetric]
    by (simp add: ratio_int_secs secs_q_sub q_ge_secs q_lt_secs q_gt_secs q_le_secs
        not_less not_le)
qed

text \<open>
  Claim C3, as stated, with \<open>floor\<close> in condition 3: for start 5 s, stop 2 s, bin width
  2 s and bin count \<open>-1\<close> the quotient is \<open>-3/2\<close>, whose floor is \<open>-2\<close>, so condition 3 is the
  first one violated; \<^verbatim>\<open>int\<close> gives \<open>-1\<close>, the check of line 487 passes and the
  constructor fails with the error of condition 4.
\<close>

theorem C3_floor_is_not_the_check:
  "binned_st_init Classic [train_a] (Some (seconds 2)) (Some (- 1)) (Some (seconds 5))
     (Some (seconds 2)) False = Inl StopTooLargeError
   \<and> spec_first_violation floor [train_a] (seconds 2) (- 1) (seconds 5) (seconds 2)
       = Some InconsistentParametersError"
  by code_simp

text \<open>
  Claim C3, amended: with the integer part of condition 3 taken by truncation towards
  zero, as \<^verbatim>\<open>int\<close> does, the validator fails with the error of the first violated
  condition in the order (1) to (7) and succeeds when none is violated, and so does the
  construction: it fails with that error, and returns the instance with its rows when no
  condition is violated. This is for a non-empty list of input sequences, a bin width
  that is not zero and resolved parameters; the instance's attributes hold the bin count
  that is checked, which is so for the instance the constructor passes to the validator.
  Before the seven conditions the validator fails with the insufficient-parameters error
  when fewer than three of the four attributes count as given.
\<close>

theorem C3_first_violation:
  assumes "sts \<noteq> []" and "magnitude width \<noteq> 0"
  shows "(matrix_columns self = Some n \<and> num_bins self = Some n \<longrightarrow>
            check_consistency self sts (Some width) (Some n) (Some start) (Some stop)
              = (if \<not> count_params self then Inl InsufficientParametersError
                 else case spec_first_violation py_int sts width n start stop of
                        None \<Rightarrow> Inr () | Some err \<Rightarrow> Inl err))
       \<and> (init_params sts b0 n0 s0 e0 sm = Inr v
            \<and> t_start v = Some start \<and> t_stop v = Some stop
            \<and> binsize v = Some width \<and> num_bins v = Some n \<longrightarrow>
            binned_st_init Classic sts b0 n0 s0 e0 sm
              = (if \<not> count_params v then Inl InsufficientParametersError
                 else case spec_first_violation py_int sts width n start stop of
                        None \<Rightarrow> Inr (with_filled v (map (binned_row start width n) sts))
                      | Some err \<Rightarrow> Inl err))"
proof -
  have validator: "check_consistency self sts (Some width) (Some n) (Some start) (Some stop)
              = (if \<not> count_params self then Inl InsufficientParametersError
                 else case spec_first_violation py_int sts width n start stop of
                        None \<Rightarrow> Inr () | Some err \<Rightarrow> Inl err)"
    if "matrix_columns self = Some n \<and> num_bins self = Some n"
    using check_consistency_order [OF assms] that by blast
  have constructor: "binned_st_init Classic sts b0 n0 s0 e0 sm
              = (if \<not> count_params v then Inl InsufficientParametersError
                 else case spec_first_violation py_int sts width n start stop of
                        None \<Rightarrow> Inr (with_filled v (map (binned_row start width n) sts))
                      | Some err \<Rightarrow> Inl err)"
    if h: "init_params sts b0 n0 s0 e0 sm = Inr v
            \<and> t_start v = Some start \<and> t_stop v = Some stop
            \<and> binsize v = Some width \<and> num_bins v = Some n"
  proof -
    have cols: "matrix_columns v = Some n"
      using init_params_columns [of sts b0 n0 s0 e0 sm v] h by simp
    have c: "check_consistency v sts (binsize v) (num_bins v) (t_start v) (t_stop v)
               = (if \<not> count_params v then Inl InsufficientParametersError
                  else case spec_first_violation py_int sts width n start stop of
                         None \<Rightarrow> Inr () | Some err \<Rightarrow> Inl err)"
      using check_consistency_order [OF assms cols, of start stop] h by simp
    have conv: "convert_to_binned Classic (with_filled v []) sts
                  = Inr (with_filled v (map (binned_row start width n) sts))"
      using h assms(2) by (simp add: convert_classic [of _ start width n] with_filled_def)
    show ?thesis
      using h c conv
      by (simp add: binned_st_init_def init_checks_def split: option.splits)
  qed
  show ?thesis using validator constructor by blast
qed

text \<open>The error scenario of the specification: bin count 10 where the derivable value is 9.\<close>

theorem C3_first_violation_witness:
  "binned_st_init Classic [train_a] (Some (seconds 1)) (Some 10) (Some (seconds 0))
     (Some (seconds 9)) False = Inl InconsistentParametersError
   \<and> check_consistency x_a [train_a] (Some (seconds 1)) (Some 10)
       (Some (seconds 0)) (Some (seconds 10)) = Inr ()"
proof -
  have p: "init_params [train_a] (Some (seconds 1)) (Some 10) (Some (seconds 0))
             (Some (seconds 9)) False = Inr (with_filled (x_a\<lparr>t_stop := Some (seconds 9)\<rparr>) ())"
    by code_simp
  have v: "spec_first_violation py_int [train_a] (seconds 1) 10 (seconds 0) (seconds 9)
             = Some InconsistentParametersError"
    by code_simp
  have c: "count_params (with_filled (x_a\<lparr>t_stop := Some (seconds 9)\<rparr>) ())"
    by code_simp
  have v': "spec_first_violation py_int [train_a] (seconds 1) 10 (seconds 0) (seconds 10) = None"
    by code_simp
  have c': "count_params x_a"
    by code_simp
  have m: "magnitude (seconds 1) \<noteq> 0" by (simp add: seconds_def)
  have f: "t_start (with_filled (x_a\<lparr>t_stop := Some (seconds 9)\<rparr>) ()) = Some (seconds 0)"
      "t_stop (with_filled (x_a\<lparr>t_stop := Some (seconds 9)\<rparr>) ()) = Some (seconds 9)"
      "binsize (with_filled (x_a\<lparr>t_stop := Some (seconds 9)\<rparr>) ()) = Some (seconds 1)"
      "num_bins (with_filled (x_a\<lparr>t_stop := Some (seconds 9)\<rparr>) ()) = Some 10"
    by (simp_all add: with_filled_def x_a_def)
  have "binned_st_init Classic [train_a] (Some (seconds 1)) (Some 10) (Some (seconds 0))
          (Some (seconds 9)) False = Inl InconsistentParametersError"
    using C3_first_violation [where sts = "[train_a]" and width = "seconds 1"
        and v = "with_filled (x_a\<lparr>t_stop := Some (seconds 9)\<rparr>) ()" and n = 10
        and start = "seconds 0" and stop = "seconds 9" and ?b0.0 = "Some (seconds 1)"
        and ?n0.0 = "Some 10" and ?s0.0 = "Some (seconds 0)" and ?e0.0 = "Some (seconds 9)"
        and sm = False and self = x_a] m p v c f
    by simp
  moreover have "check_consistency x_a [train_a] (Some (seconds 1)) (Some 10)
     (Some (seconds 0)) (Some (seconds 10)) = Inr ()"
    using C3_first_violation [where sts = "[train_a]" and width = "seconds 1" and self = x_a
        and n = 10 and start = "seconds 0" and stop = "seconds 10"] m v' c'
    by (simp add: x_a_def)
  ultimately show ?thesis by simp
qed

section \<open>Indices below zero\<close>

text \<open>
  Claim C4: every index stored in \<open>filled\<close> lies in \<open>[0, bin_count)\<close>, also when an input
  sequence has timestamps earlier than the resolved start. The code at such an input:
  \<^verbatim>\<open>rep.binned_st(a, binsize=1 * pq.s, t_start=2 * pq.s, t_stop=10 * pq.s)\<close> for the train
  \<^verbatim>\<open>a\<close> of the doctests, whose first two spikes are at 0.5 s and 0.7 s. Line 804 keeps the
  indices below \<open>num_bins\<close> and tests no lower bound, so both spikes are stored with index
  \<open>-1\<close>; the clipped matrix then marks the last column, since a negative index counts
  from the end of the row.
\<close>

theorem C4_index_below_zero_is_stored:
  "and_then (binned_st_init Classic [train_a] (Some (seconds 1)) None (Some (seconds 2))
              (Some (seconds 10)) False) (\<lambda>x.
   and_then (matrix_clipped None x) (\<lambda>(m, _).
   Inr (num_bins x, filled x, m)))
     = Inr (Some 8, [[- 1, - 1, 0, 1, 2, 3, 4]], Some [[1, 1, 1, 1, 1, 0, 0, 1]])"
  by code_simp

section \<open>The union of instances with several rows\<close>

text \<open>
  Claim C6: the union has, at each row, the concatenation of the operands' rows, for any
  number of rows. The code for two rows: with \<^verbatim>\<open>x = rep.binned_st([a, b], binsize=pq.s,
  t_start=0 * pq.s, t_stop=10. * pq.s)\<close>, \<^verbatim>\<open>x + x\<close> stores the list of the two operands'
  \<open>filled\<close> lists (line 890), not a list of concatenated rows. For one row each
  (\<^verbatim>\<open>x + y\<close> of the doctests) the result is the concatenation.
\<close>

theorem C6_union_of_two_rows_is_a_pair:
  "and_then (binned_st_init Classic [train_a, train_b] (Some (seconds 1)) None
              (Some (seconds 0)) (Some (seconds 10)) False) (\<lambda>A.
   and_then (add Classic A A) (\<lambda>C.
   Inr (filled A, filled C)))
     = Inr ([[0, 0, 1, 3, 4, 5, 6], [0, 0, 1, 2, 4, 5, 8]],
            Listed [[0, 0, 1, 3, 4, 5, 6], [0, 0, 1, 2, 4, 5, 8]]
                   [[0, 0, 1, 3, 4, 5, 6], [0, 0, 1, 2, 4, 5, 8]])
   \<and> and_then (add Classic x_a x_b) (\<lambda>C. Inr (filled C))
     = Inr (Stacked [[0, 0, 1, 3, 4, 5, 6, 0, 0, 1, 2, 4, 5, 8]])"
  by code_simp

section \<open>The stored clipped matrix\<close>

text \<open>
  Claim C8: with the matrix stored, two calls of the clipped materializer return the same
  matrix, and it is the matrix computed on demand from the same \<open>filled\<close>, for any number
  of rows; likewise for the unclipped matrix. The code for the instance of the two trains
  of the doctests, constructed with \<^verbatim>\<open>store_mat=True\<close>: the two stored calls agree, but
  the \<^verbatim>\<open>return\<close> of line 678 ends the loop after the first row, so the second row of the
  stored clipped matrix is zero, while the matrix on demand has the second train's bins.
  The stored unclipped matrix, whose \<^verbatim>\<open>return\<close> follows the loop (line 757), is the
  matrix on demand.
\<close>

theorem C8_stored_clipped_matrix_has_one_row_filled:
  "and_then (binned_st_init Classic [train_a, train_b] (Some (seconds 1)) None
              (Some (seconds 0)) (Some (seconds 10)) True) (\<lambda>x.
   and_then (matrix_clipped None x) (\<lambda>(first_call, x1).
   and_then (matrix_clipped None x1) (\<lambda>(second_call, _).
   and_then (matrix_clipped (Some False) x) (\<lambda>(on_demand, _).
   Inr (first_call, second_call, on_demand)))))
     = Inr (Some [[1, 1, 0, 1, 1, 1, 1, 0, 0, 0], [0, 0, 0, 0, 0, 0, 0, 0, 0, 0]],
            Some [[1, 1, 0, 1, 1, 1, 1, 0, 0, 0], [0, 0, 0, 0, 0, 0, 0, 0, 0, 0]],
            Some [[1, 1, 0, 1, 1, 1, 1, 0, 0, 0], [1, 1, 1, 0, 1, 1, 0, 0, 1, 0]])
   \<and> and_then (binned_st_init Classic [train_a, train_b] (Some (seconds 1)) None
              (Some (seconds 0)) (Some (seconds 10)) True) (\<lambda>x.
   and_then (matrix_unclipped None x) (\<lambda>(first_call, x1).
   and_then (matrix_unclipped None x1) (\<lambda>(second_call, _).
   and_then (matrix_unclipped (Some False) x) (\<lambda>(on_demand, _).
   Inr (first_call, second_call, on_demand)))))
     = Inr (Some [[2, 1, 0, 1, 1, 1, 1, 0, 0, 0], [2, 1, 1, 0, 1, 1, 0, 0, 1, 0]],
            Some [[2, 1, 0, 1, 1, 1, 1, 0, 0, 0], [2, 1, 1, 0, 1, 1, 0, 0, 1, 0]],
            Some [[2, 1, 0, 1, 1, 1, 1, 0, 0, 0], [2, 1, 1, 0, 1, 1, 0, 0, 1, 0]])"
  by code_simp

section \<open>The bin assigner\<close>

lemma bin_index_secs:
  "bin_index start width t = py_int ((secs t - secs start) / secs width)"
  by (simp add: bin_index_def ratio_secs secs_q_sub)

lemma py_int_floor: "0 \<le> x \<Longrightarrow> py_int x = \<lfloor>x\<rfloor>"
  by (simp add: py_int_def)

lemma py_int_ge_one: "1 \<le> py_int x \<Longrightarrow> 1 \<le> x"
  by (auto simp: py_int_def split: if_splits)

lemma init_checks_resolved:
  assumes "init_checks sts b n s e sm = Inr v"
  shows "\<exists>start stop width k.
           t_start v = Some start \<and> t_stop v = Some stop \<and> binsize v = Some width
         \<and> num_bins v = Some k \<and> 1 \<le> k \<and> secs start < secs stop \<and> 0 < secs width
         \<and> k = \<lfloor>(secs stop - secs start) / secs width\<rfloor>"
proof -
  from check_consistency_Inr [OF init_checks_Inr [OF assms]]
  obtain start stop width k where f: "t_start v = Some start" "t_stop v = Some stop"
      "binsize v = Some width" "num_bins v = Some k"
    and r: "ratio_int (q_sub stop start) width = Inr k"
    and lt: "q_lt start stop" and one: "\<not> less_than_one (num_bins v)"
    by blast
  have k1: "1 \<le> k" using one f by simp
  have "magnitude width \<noteq> 0" using r by (rule ratio_int_Inr)
  then have k: "k = py_int ((secs stop - secs start) / secs width)"
    using r by (simp add: ratio_int_secs secs_q_sub)
  have q1: "1 \<le> (secs stop - secs start) / secs width"
    using k1 k py_int_ge_one by simp
  have d: "0 < secs stop - secs start" using lt by (simp add: q_lt_secs)
  have w: "0 < secs width"
  proof (rule ccontr)
    assume "\<not> 0 < secs width"
    then have "(secs stop - secs start) / secs width \<le> 0"
      using d by (simp add: divide_nonpos_nonpos divide_nonneg_nonpos)
    then show False using q1 by simp
  qed
  have "k = \<lfloor>(secs stop - secs start) / secs width\<rfloor>"
    using k q1 by (simp add: py_int_floor)
  then show ?thesis using f k1 d w by simp
qed

text \<open>
  Claim C1: for an instance that the constructor returns, the four parameters are
  resolved, the bin width is positive, start is before stop and the bin count is at
  least one; each row of \<open>filled\<close> holds the indices of the row's timestamps that are below
  the bin count, in the order of the timestamps. A timestamp equal to stop has index
  \<open>bin_count\<close>, which is not below the bin count, so it is dropped; a timestamp equal to
  start has index 0, which is kept; a timestamp \<open>t\<close> from start up to stop has the index
  \<open>floor ((t - start) / bin_width)\<close>, which is between 0 and the bin count, and is below
  the bin count, hence kept, when \<open>t\<close> is before \<open>start + bin_count * bin_width\<close>. Values
  are compared in seconds.
\<close>

theorem C1_bin_assigner:
  assumes "binned_st_init Classic sts b0 n0 s0 e0 sm = Inr x"
  shows "\<exists>start stop width n.
           t_start x = Some start \<and> t_stop x = Some stop \<and> binsize x = Some width
         \<and> num_bins x = Some n \<and> 0 < n
         \<and> filled x = map (\<lambda>elem. filter (\<lambda>i. i < n)
                              (map (bin_index start width) (spike_quantities elem))) sts
         \<and> (\<forall>t. secs t = secs stop \<longrightarrow> bin_index start width t = n)
         \<and> (\<forall>t. secs t = secs start \<longrightarrow> bin_index start width t = 0)
         \<and> (\<forall>t. secs start \<le> secs t \<and> secs t < secs stop \<longrightarrow>
                bin_index start width t = \<lfloor>(secs t - secs start) / secs width\<rfloor>
              \<and> 0 \<le> bin_index start width t \<and> bin_index start width t \<le> n
              \<and> (secs t < secs start + of_int n * secs width \<longrightarrow> bin_index start width t < n))"
proof -
  from assms obtain v where v: "init_checks sts b0 n0 s0 e0 sm = Inr v"
    by (auto simp: binned_st_init_def and_then_Inr_iff)
  from init_checks_resolved [OF v]
  obtain start stop width k where f: "t_start v = Some start" "t_stop v = Some stop"
      "binsize v = Some width" "num_bins v = Some k"
    and k1: "1 \<le> k" and lt: "secs start < secs stop" and w: "0 < secs width"
    and k: "k = \<lfloor>(secs stop - secs start) / secs width\<rfloor>"
    by blast
  from init_classic [OF v] f
  have x: "x = with_filled v (map (binned_row start width k) sts)"
    using assms by auto
  have at_stop: "bin_index start width t = k" if "secs t = secs stop" for t
    using that k lt w by (simp add: bin_index_secs py_int_floor)
  have at_start: "bin_index start width t = 0" if "secs t = secs start" for t
    using that by (simp add: bin_index_secs py_int_def)
  have inside: "bin_index start width t = \<lfloor>(secs t - secs start) / secs width\<rfloor>
              \<and> 0 \<le> bin_index start width t \<and> bin_index start width t \<le> k
              \<and> (secs t < secs start + of_int k * secs width \<longrightarrow> bin_index start width t < k)"
    if t: "secs start \<le> secs t \<and> secs t < secs stop" for t
  proof -
    have q0: "0 \<le> (secs t - secs start) / secs width" using t w by simp
    have i: "bin_index start width t = \<lfloor>(secs t - secs start) / secs width\<rfloor>"
      using q0 by (simp add: bin_index_secs py_int_floor)
    have "(secs t - secs start) / secs width \<le> (secs stop - secs start) / secs width"
      using t w by (simp add: divide_right_mono)
    then have le: "\<lfloor>(secs t - secs start) / secs width\<rfloor> \<le> k"
      unfolding k by (rule floor_mono)
    have below: "\<lfloor>(secs t - secs start) / secs width\<rfloor> < k"
      if "secs t < secs start + of_int k * secs width"
    proof -
      have "(secs t - secs start) / secs width < of_int k"
        using that w by (simp add: pos_divide_less_eq algebra_simps)
      then show ?thesis by (simp add: floor_less_iff)
    qed
    show ?thesis using i q0 le below by simp
  qed
  have fields: "t_start x = Some start" "t_stop x = Some stop" "binsize x = Some width"
      "num_bins x = Some k"
    using f by (simp_all add: x with_filled_def)
  have rows: "filled x = map (\<lambda>elem. filter (\<lambda>i. i < k)
                              (map (bin_index start width) (spike_quantities elem))) sts"
    by (simp add: x with_filled_def binned_row_def)
  have "0 < k" using k1 by simp
  then show ?thesis
    using fields rows at_stop at_start inside by blast
qed

theorem C1_bin_assigner_witness:
  "filled x_a = [filter (\<lambda>i. i < 10) (map (bin_index (seconds 0) (seconds 1))
                                          (spike_quantities train_a))]
   \<and> bin_index (seconds 0) (seconds 1) (seconds 10) = 10
   \<and> bin_index (seconds 0) (seconds 1) (seconds 0) = 0
   \<and> bin_index (seconds 0) (seconds 1) (seconds (31 / 10)) = 3"
proof -
  from C1_bin_assigner [OF init_x_a]
  obtain start stop width n where f: "t_start x_a = Some start" "t_stop x_a = Some stop"
      "binsize x_a = Some width" "num_bins x_a = Some n"
    and r: "filled x_a = map (\<lambda>elem. filter (\<lambda>i. i < n)
                              (map (bin_index start width) (spike_quantities elem))) [train_a]"
    and a: "\<forall>t. secs t = secs stop \<longrightarrow> bin_index start width t = n"
    and b: "\<forall>t. secs t = secs start \<longrightarrow> bin_index start width t = 0"
    and c: "\<forall>t. secs start \<le> secs t \<and> secs t < secs stop \<longrightarrow>
                bin_index start width t = \<lfloor>(secs t - secs start) / secs width\<rfloor>"
    by blast
  have v: "start = seconds 0" "stop = seconds 10" "width = seconds 1" "n = 10"
    using f by (simp_all add: x_a_def)
  have "bin_index (seconds 0) (seconds 1) (seconds (31 / 10))
          = \<lfloor>(secs (seconds (31 / 10)) - secs (seconds 0)) / secs (seconds 1)\<rfloor>"
    using c unfolding v by (simp add: secs_def seconds_def)
  moreover have "\<lfloor>(secs (seconds (31 / 10)) - secs (seconds 0)) / secs (seconds 1)\<rfloor> = 3"
    by code_simp
  ultimately show ?thesis
    using r a b unfolding v by simp
qed

section \<open>The parameter resolver\<close>



section \<open>The symmetric difference\<close>






section \<open>The union and the shapes of its operands\<close>

text \<open>
  Claim C10, as stated: the union fails with a shape-mismatch error when the operands'
  bin counts or row counts differ. \<^verbatim>\<open>__add__\<close> compares neither: the instance \<^verbatim>\<open>x\<close> of the
  doctests (10 bins, one row) is added to an instance of 5 bins, and to the instance of
  two rows, and a result is returned both times.
\<close>

theorem C10_union_of_different_shapes_returns:
  "and_then (binned_st_init Classic [train_b] (Some (seconds 2)) None (Some (seconds 0))
              (Some (seconds 10)) False) (\<lambda>B.
   and_then (add Classic x_a B) (\<lambda>C.
   Inr (num_bins x_a, num_bins B, filled C)))
     = Inr (Some 10, Some 5, Stacked [[0, 0, 1, 3, 4, 5, 6, 0, 0, 0, 1, 2, 2, 4]])
   \<and> and_then (add Classic x_a x_ab) (\<lambda>C. Inr (matrix_rows x_a, matrix_rows x_ab))
     = Inr (1, 2)"
  by code_simp

text \<open>
  Claim C10, amended: the union does not compare the shapes of its operands. It fails
  exactly when the result instance cannot be built from the start, the stop and the bin
  width of the left operand, with the error of that construction, or when neither operand
  has more than one row and exactly one of them has no row at all; in every other case
  it returns an instance, whatever the bin counts and the row counts of the operands
  are. Its outcome is the same when the bin count, the column count and the row count
  recorded in the right operand are replaced by any other values.
\<close>

theorem C10_union_checks_no_shape:
  "((\<exists>C. add Classic A B = Inr C) \<longleftrightarrow>
      (\<exists>N. create_class Classic (t_start A) (t_stop A) (binsize A) (matrix_rows A)
             (matrix_columns A) = Inr N)
      \<and> (1 < length (filled A) \<or> 1 < length (filled B)
         \<or> (filled A = [] \<longleftrightarrow> filled B = [])))
   \<and> (\<forall>err. create_class Classic (t_start A) (t_stop A) (binsize A) (matrix_rows A)
               (matrix_columns A) = Inl err \<longrightarrow> add Classic A B = Inl err)
   \<and> add Classic A (B\<lparr>num_bins := k, matrix_columns := c, matrix_rows := r\<rparr>)
       = add Classic A B"
proof -
  have h: "(\<exists>rows. hstack a b = Inr rows) \<longleftrightarrow> (a = [] \<longleftrightarrow> b = [])"
    if "\<not> (1 < length a \<or> 1 < length b)" for a b :: rows
  proof -
    from that have "length a \<le> 1" "length b \<le> 1" by auto
    then consider "a = []" "b = []" | x where "a = [x]" "b = []"
      | y where "a = []" "b = [y]" | x y where "a = [x]" "b = [y]"
      by (cases a; cases b) auto
    then show ?thesis by cases simp_all
  qed
  have a: "(\<exists>C. add Classic A B = Inr C) \<longleftrightarrow>
      (\<exists>N. create_class Classic (t_start A) (t_stop A) (binsize A) (matrix_rows A)
             (matrix_columns A) = Inr N)
      \<and> (1 < length (filled A) \<or> 1 < length (filled B)
         \<or> (filled A = [] \<longleftrightarrow> filled B = []))"
  proof (cases "1 < length (filled A) \<or> 1 < length (filled B)")
    case True
    then show ?thesis by (auto simp: add_def and_then_Inr_iff)
  next
    case False
    show ?thesis
      using False h [OF False] by (auto simp: add_def and_then_Inr_iff)
  qed
  have b: "add Classic A B = Inl err"
    if "create_class Classic (t_start A) (t_stop A) (binsize A) (matrix_rows A)
               (matrix_columns A) = Inl err" for err
    using that by (simp add: add_def)
  have c: "add Classic A (B\<lparr>num_bins := k, matrix_columns := c, matrix_rows := r\<rparr>)
       = add Classic A B"
  proof -
    have "filled (B\<lparr>num_bins := k, matrix_columns := c, matrix_rows := r\<rparr>) = filled B"
      by simp
    then show ?thesis unfolding add_def by (simp only:)
  qed
  show ?thesis using a b c by blast
qed

theorem C10_union_checks_no_shape_witness:
  "(\<exists>C. add Classic x_a x_ab = Inr C)
   \<and> (\<exists>N. create_class Classic (t_start x_a) (t_stop x_a) (binsize x_a) (matrix_rows x_a)
             (matrix_columns x_a) = Inr N)
   \<and> add Classic (x_a\<lparr>t_stop := None\<rparr>) x_ab = Inl NoneOperandError"
proof -
  have "and_then (create_class Classic (t_start x_a) (t_stop x_a) (binsize x_a)
                    (matrix_rows x_a) (matrix_columns x_a)) (\<lambda>N. Inr (matrix_rows N)) = Inr 1"
    by code_simp
  then obtain N where N: "create_class Classic (t_start x_a) (t_stop x_a) (binsize x_a)
                    (matrix_rows x_a) (matrix_columns x_a) = Inr N"
    by (cases "create_class Classic (t_start x_a) (t_stop x_a) (binsize x_a)
                    (matrix_rows x_a) (matrix_columns x_a)") auto
  have l: "1 < length (filled x_ab)" by (simp add: x_ab_def)
  have "\<exists>C. add Classic x_a x_ab = Inr C"
    using C10_union_checks_no_shape [of x_a x_ab] N l by blast
  moreover have e: "create_class Classic (t_start (x_a\<lparr>t_stop := None\<rparr>))
           (t_stop (x_a\<lparr>t_stop := None\<rparr>)) (binsize (x_a\<lparr>t_stop := None\<rparr>))
           (matrix_rows (x_a\<lparr>t_stop := None\<rparr>)) (matrix_columns (x_a\<lparr>t_stop := None\<rparr>))
             = Inl NoneOperandError"
    by (simp add: create_class_def)
  have "add Classic (x_a\<lparr>t_stop := None\<rparr>) x_ab = Inl NoneOperandError"
    using C10_union_checks_no_shape [of "x_a\<lparr>t_stop := None\<rparr>" x_ab] e by blast
  ultimately show ?thesis using N by blast
qed

end
